theory Spec2Isabelle
  imports Complex_Main "HOL-Library.Multiset"
begin

section \<open>Text primitives used by the routes\<close>

text \<open>
  Text is a list of 8-bit characters.  Whitespace and case mapping are the ones Python's
  \<^verbatim>\<open>str\<close> methods apply to the ASCII range; a character outside that range is
  neither whitespace nor cased, so it is passed through unchanged.  The glyphs of the
  markdown renderer, which lie outside ASCII, are kept as the byte sequences the source
  file stores for them.
\<close>

definition is_space :: "char \<Rightarrow> bool" where
  "is_space c = (c \<in> set [CHR 0x09, CHR 0x0A, CHR 0x0B, CHR 0x0C, CHR 0x0D,
                          CHR 0x1C, CHR 0x1D, CHR 0x1E, CHR 0x1F, CHR 0x20])"

text \<open>\<^verbatim>\<open>s.strip()\<close>: leading and trailing whitespace removed.\<close>

definition strip :: "string \<Rightarrow> string" where
  "strip s = rev (dropWhile is_space (rev (dropWhile is_space s)))"

definition upper_letters :: string where
  "upper_letters = ''ABCDEFGHIJKLMNOPQRSTUVWXYZ''"

definition lower_letters :: string where
  "lower_letters = ''abcdefghijklmnopqrstuvwxyz''"

definition is_upper :: "char \<Rightarrow> bool" where
  "is_upper c = (c \<in> set upper_letters)"

definition is_lower :: "char \<Rightarrow> bool" where
  "is_lower c = (c \<in> set lower_letters)"

definition lower_char :: "char \<Rightarrow> char" where
  "lower_char c = (case map_of (zip upper_letters lower_letters) c of
                     None \<Rightarrow> c | Some d \<Rightarrow> d)"

definition upper_char :: "char \<Rightarrow> char" where
  "upper_char c = (case map_of (zip lower_letters upper_letters) c of
                     None \<Rightarrow> c | Some d \<Rightarrow> d)"

text \<open>\<^verbatim>\<open>s.lower()\<close> and \<^verbatim>\<open>s.upper()\<close>.\<close>

definition lower :: "string \<Rightarrow> string" where
  "lower s = map lower_char s"

definition upper :: "string \<Rightarrow> string" where
  "upper s = map upper_char s"

text \<open>\<^verbatim>\<open>s.startswith(p)\<close>.\<close>

fun startswith :: "string \<Rightarrow> string \<Rightarrow> bool" where
  "startswith s [] = True"
| "startswith [] (p # ps) = False"
| "startswith (c # cs) (p # ps) = (c = p \<and> startswith cs ps)"

text \<open>\<^verbatim>\<open>p in s\<close>: \<open>p\<close> occurs in \<open>s\<close> as a contiguous run.\<close>

fun contains :: "string \<Rightarrow> string \<Rightarrow> bool" where
  "contains p [] = (p = [])"
| "contains p (c # cs) = (startswith (c # cs) p \<or> contains p cs)"

text \<open>
  \<^verbatim>\<open>re.split(r'[.!?]+', text)\<close>: the text is cut at every maximal run of sentence
  terminators; the pieces between the runs are returned in order, the empty piece before
  a leading run and after a trailing run included.  \<open>cur\<close> is the piece being read and
  \<open>in_run\<close> tells that the previous character was a terminator.
\<close>

definition is_terminator :: "char \<Rightarrow> bool" where
  "is_terminator c = (c \<in> set ''.!?'')"

fun split_units :: "string \<Rightarrow> bool \<Rightarrow> string \<Rightarrow> string list" where
  "split_units cur in_run [] = [cur]"
| "split_units cur in_run (c # cs) =
     (if is_terminator c
      then (if in_run then split_units cur True cs else cur # split_units [] True cs)
      else split_units (cur @ [c]) False cs)"

definition re_split :: "string \<Rightarrow> string list" where
  "re_split text = split_units [] False text"

section \<open>Up-sot detection (routes/transcription.py)\<close>

text \<open>The dictionary the detector appends: all four keys are always present.\<close>

record up_sot =
  timestamp :: nat
  type :: string
  description :: string
  confidence :: rat

definition key_phrases :: "string list" where
  "key_phrases =
     [''thank you'', ''welcome'', ''fascinating'', ''absolutely'', ''unique'',
      ''challenge'', ''opportunity'', ''important'', ''key'', ''significant'',
      ''advice'', ''perspective'', ''innovative'', ''breakthrough'', ''solution'',
      ''problem'', ''ethics'', ''future'', ''looking ahead'', ''in conclusion'']"

definition question_indicators :: "string list" where
  "question_indicators =
     [''can you tell us'', ''can you walk us through'', ''what do you see'',
      ''how does'', ''what advice'', ''what makes'', ''how do you'']"

definition topic_starters :: "string list" where
  "topic_starters = [''speaking of'', ''looking ahead'', ''moving on'', ''now'', ''finally'']"

text \<open>
  The description expression of the three rules:
  \<^verbatim>\<open>f'{label}{sentence[:100]}...' if len(sentence) > 100 else f'{label}{sentence}'\<close>.
\<close>

definition describe :: "string \<Rightarrow> string \<Rightarrow> string" where
  "describe label sentence =
     (if length sentence > 100 then label @ take 100 sentence @ ''...''
      else label @ sentence)"

text \<open>
  Each rule is a loop over a phrase table that appends one dictionary at the first phrase
  that passes the test and then breaks.
\<close>

fun append_at_first :: "(string \<Rightarrow> bool) \<Rightarrow> string list \<Rightarrow> up_sot \<Rightarrow> up_sot list" where
  "append_at_first test [] u = []"
| "append_at_first test (p # ps) u = (if test p then [u] else append_at_first test ps u)"

text \<open>
  The body of the loop over \<^verbatim>\<open>enumerate(sentences)\<close>: what one unit with index
  \<open>i\<close> appends to \<^verbatim>\<open>up_sots\<close>.  The three rule loops run one after the other, each
  with its own append.
\<close>

definition analyse :: "nat \<Rightarrow> string \<Rightarrow> up_sot list" where
  "analyse i unit =
     (let sentence = lower (strip unit) in
      if length sentence < 10 then []
      else
        let timestamp = i * 3 in
          append_at_first (\<lambda>indicator. contains indicator sentence) question_indicators
            \<lparr>timestamp = timestamp, type = ''question'',
             description = describe ''Question: '' sentence, confidence = 8 / 10\<rparr>
        @ append_at_first (\<lambda>phrase. contains phrase sentence \<and> length sentence > 30) key_phrases
            \<lparr>timestamp = timestamp, type = ''key_moment'',
             description = describe ''Key point: '' sentence, confidence = 7 / 10\<rparr>
        @ append_at_first (\<lambda>starter. startswith sentence starter) topic_starters
            \<lparr>timestamp = timestamp, type = ''topic_transition'',
             description = describe ''Topic change: '' sentence, confidence = 9 / 10\<rparr>)"

fun scan :: "nat \<Rightarrow> string list \<Rightarrow> up_sot list" where
  "scan i [] = []"
| "scan i (unit # units) = analyse i unit @ scan (Suc i) units"

text \<open>The duplicate filter, with the set \<^verbatim>\<open>seen_timestamps\<close> threaded through.\<close>

fun remove_duplicates :: "nat set \<Rightarrow> up_sot list \<Rightarrow> up_sot list" where
  "remove_duplicates seen_timestamps [] = []"
| "remove_duplicates seen_timestamps (u # us) =
     (if timestamp u \<notin> seen_timestamps
      then u # remove_duplicates (insert (timestamp u) seen_timestamps) us
      else remove_duplicates seen_timestamps us)"

definition detect_up_sots :: "string \<Rightarrow> up_sot list" where
  "detect_up_sots text =
     (let sentences = re_split text;
          up_sots = scan 0 sentences;
          unique_up_sots = remove_duplicates {} up_sots
      in sort_key timestamp unique_up_sots)"

text \<open>
  What the scan keeps of each unit once the duplicate filter has run: the first dictionary
  the unit appended, if it appended any.  The detector is shown below to return exactly
  this list.
\<close>

fun first_per_unit :: "nat \<Rightarrow> string list \<Rightarrow> up_sot list" where
  "first_per_unit i [] = []"
| "first_per_unit i (unit # units) = take 1 (analyse i unit) @ first_per_unit (Suc i) units"

text \<open>
  The classification as the specification words it: the rules are tried in the order
  question, key moment, topic transition, and the first that matches decides.
\<close>

definition is_question :: "string \<Rightarrow> bool" where
  "is_question sentence = (\<exists>indicator \<in> set question_indicators. contains indicator sentence)"

definition is_key_moment :: "string \<Rightarrow> bool" where
  "is_key_moment sentence =
     ((\<exists>phrase \<in> set key_phrases. contains phrase sentence) \<and> length sentence > 30)"

definition is_topic_transition :: "string \<Rightarrow> bool" where
  "is_topic_transition sentence = (\<exists>starter \<in> set topic_starters. startswith sentence starter)"

definition classify_by_priority :: "nat \<Rightarrow> string \<Rightarrow> up_sot list" where
  "classify_by_priority i unit =
     (let sentence = lower (strip unit) in
      if length sentence < 10 then []
      else if is_question sentence then
        [\<lparr>timestamp = i * 3, type = ''question'',
          description = describe ''Question: '' sentence, confidence = 8 / 10\<rparr>]
      else if is_key_moment sentence then
        [\<lparr>timestamp = i * 3, type = ''key_moment'',
          description = describe ''Key point: '' sentence, confidence = 7 / 10\<rparr>]
      else if is_topic_transition sentence then
        [\<lparr>timestamp = i * 3, type = ''topic_transition'',
          description = describe ''Topic change: '' sentence, confidence = 9 / 10\<rparr>]
      else [])"

section \<open>Export (routes/export.py)\<close>

subsection \<open>Numbers and their formatting\<close>

text \<open>
  A JSON number reaches the renderers as a Python int or float.  Both are modelled by
  their exact rational value, with \<^verbatim>\<open>//\<close>, \<^verbatim>\<open>%\<close> and \<^verbatim>\<open>int()\<close> computed
  exactly; on ints, and on floats such as 90.5 where no operation rounds, this is what
  Python computes.
\<close>

definition floordiv :: "rat \<Rightarrow> rat \<Rightarrow> rat" where
  "floordiv a b = of_int \<lfloor>a / b\<rfloor>"

definition pymod :: "rat \<Rightarrow> rat \<Rightarrow> rat" where
  "pymod a b = a - b * of_int \<lfloor>a / b\<rfloor>"

text \<open>\<^verbatim>\<open>int(x)\<close> truncates towards zero.\<close>

definition py_int :: "rat \<Rightarrow> int" where
  "py_int x = (if 0 \<le> x then \<lfloor>x\<rfloor> else \<lceil>x\<rceil>)"

definition digit :: "nat \<Rightarrow> char" where
  "digit d = ''0123456789'' ! d"

fun digits :: "nat \<Rightarrow> string" where
  "digits n = (if n < 10 then [digit n] else digits (n div 10) @ [digit (n mod 10)])"

declare digits.simps [simp del]

definition str_int :: "int \<Rightarrow> string" where
  "str_int n = (if n < 0 then ''-'' else []) @ digits (nat \<bar>n\<bar>)"

text \<open>The format specification \<^verbatim>\<open>0wd\<close>: zeros between the sign and the digits.\<close>

definition zero_pad :: "nat \<Rightarrow> int \<Rightarrow> string" where
  "zero_pad w n =
     (let sign = (if n < 0 then ''-'' else []); ds = digits (nat \<bar>n\<bar>)
      in sign @ replicate (w - length sign - length ds) CHR ''0'' @ ds)"

text \<open>The format specification \<^verbatim>\<open>wd\<close>: right-aligned with spaces.\<close>

definition space_pad :: "nat \<Rightarrow> int \<Rightarrow> string" where
  "space_pad w n = (let s = str_int n in replicate (w - length s) CHR '' '' @ s)"

text \<open>The HH:MM:SS:FF timecode of \<^verbatim>\<open>generate_edl\<close>, 30 frames per second.\<close>

definition timecode :: "rat \<Rightarrow> string" where
  "timecode ts =
     (let hours = py_int (floordiv ts 3600);
          minutes = py_int (floordiv (pymod ts 3600) 60);
          seconds = py_int (pymod ts 60);
          frames = py_int (pymod ts 1 * 30)
      in zero_pad 2 hours @ '':'' @ zero_pad 2 minutes @ '':'' @ zero_pad 2 seconds
         @ '':'' @ zero_pad 2 frames)"

text \<open>The MM:SS string of \<^verbatim>\<open>generate_txt\<close> and \<^verbatim>\<open>generate_markdown\<close>.\<close>

definition time_str :: "rat \<Rightarrow> string" where
  "time_str ts =
     (let minutes = py_int (floordiv ts 60);
          seconds = py_int (pymod ts 60)
      in zero_pad 2 minutes @ '':'' @ zero_pad 2 seconds)"

text \<open>\<^verbatim>\<open>f"{int(confidence * 100)}%"\<close>.\<close>

definition percent :: "rat \<Rightarrow> string" where
  "percent conf = str_int (py_int (conf * 100)) @ ''%''"

subsection \<open>Strings\<close>

definition newline :: string where
  "newline = [CHR 0x0A]"

text \<open>\<^verbatim>\<open>sep.join(lines)\<close>.\<close>

fun join :: "string \<Rightarrow> string list \<Rightarrow> string" where
  "join sep [] = []"
| "join sep [l] = l"
| "join sep (l # m # ls) = l @ sep @ join sep (m # ls)"

text \<open>\<^verbatim>\<open>s.replace('_', ' ')\<close>.\<close>

definition replace_underscores :: "string \<Rightarrow> string" where
  "replace_underscores s = map (\<lambda>c. if c = CHR ''_'' then CHR '' '' else c) s"

text \<open>
  \<^verbatim>\<open>s.title()\<close>: a lower-case letter that does not follow a cased character is
  upper-cased, an upper-case letter that follows one is lower-cased.
\<close>

fun title_from :: "bool \<Rightarrow> string \<Rightarrow> string" where
  "title_from previous_is_cased [] = []"
| "title_from previous_is_cased (c # cs) =
     (if is_lower c then (if previous_is_cased then c else upper_char c) # title_from True cs
      else if is_upper c then (if previous_is_cased then lower_char c else c) # title_from True cs
      else c # title_from False cs)"

definition title :: "string \<Rightarrow> string" where
  "title s = title_from False s"

subsection \<open>The up-sot dictionaries of a request\<close>

text \<open>
  An up-sot of a request is a JSON object; any of its keys may be absent, which is
  \<open>None\<close>.  A key that is present holds a value of the type the data model gives it.
\<close>

record up_sot_dict =
  timestamp_key :: "rat option"
  description_key :: "string option"
  type_key :: "string option"
  confidence_key :: "rat option"

text \<open>\<^verbatim>\<open>d.get(key, default)\<close>.\<close>

definition dict_get :: "'a option \<Rightarrow> 'a \<Rightarrow> 'a" where
  "dict_get entry fallback = (case entry of None \<Rightarrow> fallback | Some v \<Rightarrow> v)"

text \<open>\<^verbatim>\<open>sorted(up_sots, key=lambda x: x.get('timestamp', 0))\<close>, a stable sort.\<close>

definition sorted_by_timestamp :: "up_sot_dict list \<Rightarrow> up_sot_dict list" where
  "sorted_by_timestamp up_sots = sort_key (\<lambda>x. dict_get (timestamp_key x) 0) up_sots"

text \<open>
  \<^verbatim>\<open>for i, up_sot in enumerate(sorted_up_sots, 1)\<close> with a body that appends lines.
\<close>

fun for_enumerate :: "(nat \<Rightarrow> 'a \<Rightarrow> string list) \<Rightarrow> nat \<Rightarrow> 'a list \<Rightarrow> string list" where
  "for_enumerate body i [] = []"
| "for_enumerate body i (x # xs) = body i x @ for_enumerate body (Suc i) xs"

subsection \<open>EDL\<close>

definition edl_entry :: "nat \<Rightarrow> up_sot_dict \<Rightarrow> string list" where
  "edl_entry i up_sot =
     (let timestamp = dict_get (timestamp_key up_sot) 0;
          description = dict_get (description_key up_sot) ''Key moment'';
          up_sot_type = dict_get (type_key up_sot) ''key_moment'';
          confidence = dict_get (confidence_key up_sot) 0;
          tc = timecode timestamp
      in [zero_pad 3 (int i) @ ''  001      V     C        ''
            @ tc @ '' '' @ tc @ '' '' @ tc @ '' '' @ tc,
          ''* FROM CLIP NAME: '' @ upper up_sot_type,
          ''* COMMENT: '' @ description,
          ''* CONFIDENCE: '' @ percent confidence,
          []])"

definition generate_edl :: "up_sot_dict list \<Rightarrow> string \<Rightarrow> string" where
  "generate_edl up_sots project_name =
     join newline
       ([''TITLE: '' @ project_name, ''FCM: NON-DROP FRAME'', []]
        @ for_enumerate edl_entry 1 (sorted_by_timestamp up_sots))"

subsection \<open>Plain text\<close>

text \<open>
  \<open>now\<close> is \<^verbatim>\<open>datetime.now().strftime('%Y-%m-%d %H:%M:%S')\<close>, read from the clock by
  the source and a parameter here.
\<close>

definition txt_entry :: "nat \<Rightarrow> up_sot_dict \<Rightarrow> string list" where
  "txt_entry i up_sot =
     (let timestamp = dict_get (timestamp_key up_sot) 0;
          description = dict_get (description_key up_sot) ''Key moment'';
          up_sot_type = dict_get (type_key up_sot) ''key_moment'';
          confidence = dict_get (confidence_key up_sot) 0
      in [space_pad 2 (int i) @ ''. ['' @ time_str timestamp @ ''] '' @ upper up_sot_type,
          ''    '' @ description]
         @ (if confidence > 0 then [''    Confidence: '' @ percent confidence] else [])
         @ [[]])"

definition txt_lines :: "string \<Rightarrow> up_sot_dict list \<Rightarrow> string \<Rightarrow> string \<Rightarrow> string list" where
  "txt_lines transcription up_sots project_name now =
     [replicate 80 CHR ''='',
      ''INTERVIEW TRANSCRIPT: '' @ project_name,
      ''Generated: '' @ now,
      replicate 80 CHR ''='',
      [],
      ''FULL TRANSCRIPTION:'',
      replicate 40 CHR ''-'',
      transcription,
      [],
      []]
     @ (if up_sots \<noteq> []
        then [''KEY MOMENTS (UP-SOTS):'', replicate 40 CHR ''-'']
             @ for_enumerate txt_entry 1 (sorted_by_timestamp up_sots)
        else [])
     @ [replicate 80 CHR ''='',
        ''Generated by Retro Professional Transcribe Tool'',
        replicate 80 CHR ''='']"

definition generate_txt :: "string \<Rightarrow> up_sot_dict list \<Rightarrow> string \<Rightarrow> string \<Rightarrow> string" where
  "generate_txt transcription up_sots project_name now =
     join newline (txt_lines transcription up_sots project_name now)"

subsection \<open>Markdown\<close>

text \<open>
  The four glyph literals, as the bytes the source file holds between the quotes.
\<close>

definition glyph_question :: string where
  "glyph_question = [CHR 0xC3, CHR 0xB0, CHR 0xC5, CHR 0xB8, CHR 0xE2, CHR 0x80, CHR 0x9D,
                     CHR 0xC2, CHR 0xB5]"

definition glyph_key_moment :: string where
  "glyph_key_moment = [CHR 0xC3, CHR 0xB0, CHR 0xC5, CHR 0xB8, CHR 0xC5, CHR 0xB8,
                       CHR 0xC2, CHR 0xA2]"

definition glyph_topic_transition :: string where
  "glyph_topic_transition = [CHR 0xC3, CHR 0xB0, CHR 0xC5, CHR 0xB8, CHR 0xC5, CHR 0xB8,
                             CHR 0xC2, CHR 0xA3]"

definition glyph_default :: string where
  "glyph_default = [CHR 0xC3, CHR 0xA2, CHR 0xC5, CHR 0xA1, CHR 0xC2, CHR 0xAA]"

text \<open>The dictionary literal looked up with \<^verbatim>\<open>.get(up_sot_type, default)\<close>.\<close>

definition type_color :: "string \<Rightarrow> string" where
  "type_color up_sot_type =
     dict_get
       (map_of [(''question'', glyph_question),
                (''key_moment'', glyph_key_moment),
                (''topic_transition'', glyph_topic_transition)] up_sot_type)
       glyph_default"

definition md_entry :: "nat \<Rightarrow> up_sot_dict \<Rightarrow> string list" where
  "md_entry i up_sot =
     (let timestamp = dict_get (timestamp_key up_sot) 0;
          description = dict_get (description_key up_sot) ''Key moment'';
          up_sot_type = dict_get (type_key up_sot) ''key_moment'';
          confidence = dict_get (confidence_key up_sot) 0
      in [''### '' @ str_int (int i) @ ''. ['' @ time_str timestamp @ ''] ''
            @ type_color up_sot_type @ '' '' @ title (replace_underscores up_sot_type),
          [],
          ''**Description:** '' @ description,
          []]
         @ (if confidence > 0 then [''**Confidence:** '' @ percent confidence, []] else [])
         @ [''---'', []])"

text \<open>
  The source reads the clock twice, for the header and for the footer:
  \<open>now_header\<close> and \<open>now_footer\<close>.
\<close>

definition markdown_lines ::
  "string \<Rightarrow> up_sot_dict list \<Rightarrow> string \<Rightarrow> string \<Rightarrow> string \<Rightarrow> string list" where
  "markdown_lines transcription up_sots project_name now_header now_footer =
     [''# Interview Transcript: '' @ project_name,
      [],
      ''**Generated:** '' @ now_header,
      [],
      ''---'',
      [],
      ''## Full Transcription'',
      [],
      transcription,
      [],
      ''---'',
      []]
     @ (if up_sots \<noteq> []
        then [''## Key Moments (Up-Sots)'', []]
             @ for_enumerate md_entry 1 (sorted_by_timestamp up_sots)
        else [])
     @ [''## Document Information'',
        [],
        ''- **Tool:** Retro Professional Transcribe Tool'',
        ''- **Format:** Professional Interview Transcript'',
        ''- **Export Date:** '' @ now_footer]"

definition generate_markdown ::
  "string \<Rightarrow> up_sot_dict list \<Rightarrow> string \<Rightarrow> string \<Rightarrow> string \<Rightarrow> string" where
  "generate_markdown transcription up_sots project_name now_header now_footer =
     join newline (markdown_lines transcription up_sots project_name now_header now_footer)"

subsection \<open>The EDL route\<close>

text \<open>
  The JSON body of the request; \<^verbatim>\<open>data.get('up_sots', [])\<close> and
  \<^verbatim>\<open>data.get('project_name', 'Interview')\<close> read it.
\<close>

record edl_request =
  up_sots_key :: "up_sot_dict list option"
  project_name_key :: "string option"

text \<open>A response is a JSON error with its status, or the file sent as an attachment.\<close>

datatype response =
  Json_error nat string
| Send_file (content: string) (download_name: string) (mimetype: string)

text \<open>
  \<open>now\<close> is \<^verbatim>\<open>datetime.now().strftime('%Y%m%d_%H%M%S')\<close>.  \<open>raised\<close> is the message of
  an exception raised while the temporary file is written or sent, if any; the
  \<^verbatim>\<open>except\<close> clause turns it into the status 500.
\<close>

definition export_edl :: "string \<Rightarrow> string option \<Rightarrow> edl_request \<Rightarrow> response" where
  "export_edl now raised data =
     (let up_sots = dict_get (up_sots_key data) [];
          project_name = dict_get (project_name_key data) ''Interview''
      in if up_sots = [] then Json_error 400 ''No up-sots provided''
         else
           let edl_content = generate_edl up_sots project_name in
           case raised of
             Some e \<Rightarrow> Json_error 500 (''EDL export failed: '' @ e)
           | None \<Rightarrow>
               Send_file edl_content (project_name @ ''_upsots_'' @ now @ ''.edl'')
                 ''text/plain'')"

subsection \<open>Absent keys\<close>


section \<open>Properties of the detector\<close>

subsection \<open>The detector keeps the first dictionary of each unit\<close>

lemma append_at_first_eq:
  "append_at_first test ps u = (if (\<exists>p \<in> set ps. test p) then [u] else [])"
  by (induction ps) auto

lemma analyse_timestamp: "u \<in> set (analyse i unit) \<Longrightarrow> timestamp u = i * 3"
  by (auto simp: analyse_def Let_def append_at_first_eq split: if_splits)

lemma take1_timestamp: "u \<in> set (take 1 (analyse i unit)) \<Longrightarrow> timestamp u = i * 3"
  by (auto dest: in_set_takeD simp: analyse_timestamp)



lemma remove_duplicates_seen:
  "\<forall>u \<in> set xs. timestamp u \<in> seen \<Longrightarrow>
   remove_duplicates seen (xs @ ys) = remove_duplicates seen ys"
  by (induction xs) auto

lemma remove_duplicates_block:
  "\<forall>u \<in> set xs. timestamp u = t \<Longrightarrow> t \<notin> seen \<Longrightarrow>
   remove_duplicates seen (xs @ ys) =
     take 1 xs @ remove_duplicates (if xs = [] then seen else insert t seen) ys"
  by (cases xs) (auto simp: remove_duplicates_seen)

lemma remove_duplicates_scan:
  "\<forall>t \<in> seen. t < i * 3 \<Longrightarrow> remove_duplicates seen (scan i units) = first_per_unit i units"
proof (induction units arbitrary: i seen)
  case Nil
  then show ?case by simp
next
  case (Cons unit units)
  let ?seen' = "if analyse i unit = [] then seen else insert (i * 3) seen"
  have fresh: "i * 3 \<notin> seen" using Cons.prems by auto
  have same: "\<forall>u \<in> set (analyse i unit). timestamp u = i * 3"
    by (simp add: analyse_timestamp)
  have below: "\<forall>t \<in> ?seen'. t < Suc i * 3" using Cons.prems by auto
  have "remove_duplicates seen (scan i (unit # units)) =
        take 1 (analyse i unit) @ remove_duplicates ?seen' (scan (Suc i) units)"
    using remove_duplicates_block [OF same fresh] by simp
  also have "\<dots> = take 1 (analyse i unit) @ first_per_unit (Suc i) units"
    using Cons.IH [OF below] by simp
  finally show ?case by simp
qed

lemma first_per_unit_member:
  "u \<in> set (first_per_unit i units) \<Longrightarrow>
   \<exists>j. j < length units \<and> u \<in> set (take 1 (analyse (i + j) (units ! j)))"
proof (induction units arbitrary: i)
  case Nil
  then show ?case by simp
next
  case (Cons unit units)
  from Cons.prems consider
    (here) "u \<in> set (take 1 (analyse i unit))" | (later) "u \<in> set (first_per_unit (Suc i) units)"
    by auto
  then show ?case
  proof cases
    case here
    then have "0 < length (unit # units) \<and> u \<in> set (take 1 (analyse (i + 0) ((unit # units) ! 0)))"
      by simp
    then show ?thesis by blast
  next
    case later
    from Cons.IH [OF later] obtain j where
      "j < length units" "u \<in> set (take 1 (analyse (Suc i + j) (units ! j)))" by blast
    then have "Suc j < length (unit # units) \<and>
               u \<in> set (take 1 (analyse (i + Suc j) ((unit # units) ! Suc j)))" by simp
    then show ?thesis by blast
  qed
qed

lemma first_per_unit_timestamp:
  assumes "u \<in> set (first_per_unit i units)"
  shows "i * 3 \<le> timestamp u"
proof -
  from first_per_unit_member [OF assms] obtain j where
    "u \<in> set (take 1 (analyse (i + j) (units ! j)))" by blast
  then have "timestamp u = (i + j) * 3" by (rule take1_timestamp)
  then show ?thesis by simp
qed

lemma strictly_sorted_first_per_unit:
  "sorted_wrt (<) (map timestamp (first_per_unit i units))"
proof (induction units arbitrary: i)
  case Nil
  then show ?case by simp
next
  case (Cons unit units)
  have head: "sorted_wrt (<) (map timestamp (take 1 (analyse i unit)))"
    by (cases "analyse i unit") simp_all
  have cross: "timestamp u < timestamp v"
    if "u \<in> set (take 1 (analyse i unit))" "v \<in> set (first_per_unit (Suc i) units)" for u v
  proof -
    have "timestamp u = i * 3" using that(1) by (rule take1_timestamp)
    moreover have "Suc i * 3 \<le> timestamp v" using that(2) by (rule first_per_unit_timestamp)
    ultimately show ?thesis by simp
  qed
  show ?case using head Cons.IH [of "Suc i"] cross
    by (auto simp: sorted_wrt_append)
qed

lemma detect_up_sots_eq: "detect_up_sots text = first_per_unit 0 (re_split text)"
proof -
  have "sorted (map timestamp (first_per_unit 0 (re_split text)))"
    using strictly_sorted_first_per_unit strict_sorted_imp_sorted by blast
  then show ?thesis
    by (simp add: detect_up_sots_def remove_duplicates_scan sort_key_id_if_sorted)
qed

lemma filter_first_per_unit:
  "j < length units \<Longrightarrow>
   filter (\<lambda>u. timestamp u = (i + j) * 3) (first_per_unit i units) =
     take 1 (analyse (i + j) (units ! j))"
proof (induction units arbitrary: i j)
  case Nil
  then show ?case by simp
next
  case (Cons unit units)
  show ?case
  proof (cases j)
    case 0
    have "filter (\<lambda>u. timestamp u = i * 3) (take 1 (analyse i unit)) = take 1 (analyse i unit)"
      by (rule filter_True) (simp add: take1_timestamp)
    moreover have "filter (\<lambda>u. timestamp u = i * 3) (first_per_unit (Suc i) units) = []"
    proof -
      have "timestamp v \<noteq> i * 3" if "v \<in> set (first_per_unit (Suc i) units)" for v
        using first_per_unit_timestamp [OF that] by simp
      then show ?thesis by (simp add: filter_empty_conv)
    qed
    ultimately show ?thesis using 0 by simp
  next
    case (Suc k)
    then have k: "k < length units" using Cons.prems by simp
    have "filter (\<lambda>u. timestamp u = (i + j) * 3) (take 1 (analyse i unit)) = []"
    proof -
      have "timestamp v \<noteq> (i + j) * 3" if "v \<in> set (take 1 (analyse i unit))" for v
        using take1_timestamp [OF that] Suc by simp
      then show ?thesis by (simp add: filter_empty_conv)
    qed
    moreover have "filter (\<lambda>u. timestamp u = (Suc i + k) * 3) (first_per_unit (Suc i) units) =
                   take 1 (analyse (Suc i + k) (units ! k))"
      using Cons.IH [OF k] .
    ultimately show ?thesis using Suc by simp
  qed
qed

lemma first_per_unit_nth:
  assumes "j < length units"
  shows "set (take 1 (analyse (i + j) (units ! j))) \<subseteq> set (first_per_unit i units)"
  using filter_is_subset [of "\<lambda>u. timestamp u = (i + j) * 3" "first_per_unit i units"]
  unfolding filter_first_per_unit [OF assms] .

lemma take1_analyse: "take 1 (analyse i unit) = classify_by_priority i unit"
  by (simp add: analyse_def classify_by_priority_def Let_def append_at_first_eq
      is_question_def is_key_moment_def is_topic_transition_def)

lemma first_per_unit_concat:
  "first_per_unit i units =
   concat (map (\<lambda>(k, unit). take 1 (analyse k unit)) (enumerate i units))"
  by (induction units arbitrary: i) simp_all

text \<open>
  Claim C1.  For every text and every unit \<open>i\<close> of its split list, the up-sots of the
  returned list whose timestamp is that unit's (\<open>i * 3\<close>) are at most one, and they are
  what the rules give when tried in the order question, key moment, topic transition with
  the first match deciding: a unit that matches a question indicator keeps its question
  up-sot (confidence 0.8) although its later topic-transition up-sot (confidence 0.9) was
  appended too.
\<close>

theorem first_matching_rule_kept:
  assumes "i < length (re_split text)"
  shows "filter (\<lambda>u. timestamp u = i * 3) (detect_up_sots text) =
           classify_by_priority i (re_split text ! i)
         \<and> length (filter (\<lambda>u. timestamp u = i * 3) (detect_up_sots text)) \<le> 1"
proof -
  have eq: "filter (\<lambda>u. timestamp u = i * 3) (detect_up_sots text) =
        take 1 (analyse i (re_split text ! i))"
    using filter_first_per_unit [OF assms, of 0] by (simp add: detect_up_sots_eq)
  then show ?thesis by (simp add: take1_analyse [symmetric])
qed

theorem first_matching_rule_kept_witness:
  "0 < length (re_split ''Now how does this really work for you?'')
   \<and> is_question (lower (strip (re_split ''Now how does this really work for you?'' ! 0)))
   \<and> is_topic_transition (lower (strip (re_split ''Now how does this really work for you?'' ! 0)))
   \<and> filter (\<lambda>u. timestamp u = 0 * 3) (detect_up_sots ''Now how does this really work for you?'') =
       [\<lparr>timestamp = 0, type = ''question'',
         description = ''Question: now how does this really work for you'',
         confidence = 8 / 10\<rparr>]"
proof -
  have len: "0 < length (re_split ''Now how does this really work for you?'')"
    by code_simp
  have q: "is_question (lower (strip (re_split ''Now how does this really work for you?'' ! 0)))"
    by code_simp
  have t: "is_topic_transition
             (lower (strip (re_split ''Now how does this really work for you?'' ! 0)))"
    by code_simp
  have c: "classify_by_priority 0 (re_split ''Now how does this really work for you?'' ! 0) =
       [\<lparr>timestamp = 0, type = ''question'',
         description = ''Question: now how does this really work for you'',
         confidence = 8 / 10\<rparr>]"
    by code_simp
  show ?thesis using first_matching_rule_kept [OF len] len q t c by simp
qed

text \<open>
  Claim C2.  For every text the returned list is sorted ascending by timestamp and no two
  of its elements share a timestamp.
\<close>

theorem detect_sorted_distinct:
  "sorted (map timestamp (detect_up_sots text)) \<and> distinct (map timestamp (detect_up_sots text))"
  using strictly_sorted_first_per_unit [of 0 "re_split text"]
  by (simp add: detect_up_sots_eq strict_sorted_iff)

theorem detect_sorted_distinct_witness:
  "map timestamp
     (detect_up_sots ''Now how does this work for you? Looking ahead, what do you see in the future?'')
     = [0, 3]
   \<and> sorted (map timestamp
       (detect_up_sots ''Now how does this work for you? Looking ahead, what do you see in the future?''))
   \<and> distinct (map timestamp
       (detect_up_sots ''Now how does this work for you? Looking ahead, what do you see in the future?''))"
proof -
  have m: "map timestamp
     (detect_up_sots ''Now how does this work for you? Looking ahead, what do you see in the future?'')
     = [0, 3]"
    by code_simp
  show ?thesis
    using detect_sorted_distinct
      [of "''Now how does this work for you? Looking ahead, what do you see in the future?''"] m
    by blast
qed



lemma classify_background_question:
  assumes "strip unit =
    ''Can you tell us about your background and how you got started in the tech industry''"
  shows "classify_by_priority 3 unit =
     [\<lparr>timestamp = 9, type = ''question'',
       description =
         ''Question: can you tell us about your background and how you got started in the tech industry'',
       confidence = 8 / 10\<rparr>]"
proof -
  have "classify_by_priority 3 unit =
        (let sentence = lower
           ''Can you tell us about your background and how you got started in the tech industry''
         in if length sentence < 10 then []
      else if is_question sentence then
        [\<lparr>timestamp = 3 * 3, type = ''question'',
          description = describe ''Question: '' sentence, confidence = 8 / 10\<rparr>]
      else if is_key_moment sentence then
        [\<lparr>timestamp = 3 * 3, type = ''key_moment'',
          description = describe ''Key point: '' sentence, confidence = 7 / 10\<rparr>]
      else if is_topic_transition sentence then
        [\<lparr>timestamp = 3 * 3, type = ''topic_transition'',
          description = describe ''Topic change: '' sentence, confidence = 9 / 10\<rparr>]
      else [])"
    unfolding classify_by_priority_def assms ..
  also have "\<dots> = [\<lparr>timestamp = 9, type = ''question'',
       description =
         ''Question: can you tell us about your background and how you got started in the tech industry'',
       confidence = 8 / 10\<rparr>]"
    by code_simp
  finally show ?thesis .
qed

text \<open>
  Claim C7.  If the unit at index 3 of the split list is the sentence "Can you tell us
  about your background and how you got started in the tech industry", the returned list
  holds an up-sot with timestamp 9, type question, confidence 0.8 and a description that
  begins with "Question: can you tell us" (the label followed by the trimmed, lower-cased
  sentence).
\<close>

theorem background_question_detected:
  assumes "3 < length (re_split text)"
    and "strip (re_split text ! 3) =
      ''Can you tell us about your background and how you got started in the tech industry''"
  shows "\<exists>u \<in> set (detect_up_sots text).
           timestamp u = 9 \<and> type u = ''question'' \<and> confidence u = 8 / 10
           \<and> startswith (description u) ''Question: can you tell us''
           \<and> description u = ''Question: '' @ lower (strip (re_split text ! 3))"
proof -
  let ?u = "\<lparr>timestamp = 9, type = ''question'',
       description =
         ''Question: can you tell us about your background and how you got started in the tech industry'',
       confidence = 8 / 10\<rparr>"
  have "take 1 (analyse 3 (re_split text ! 3)) = [?u]"
    unfolding take1_analyse by (rule classify_background_question [OF assms(2)])
  then have "?u \<in> set (take 1 (analyse (0 + 3) (re_split text ! 3)))"
    by (simp del: take_Suc_Cons)
  then have "?u \<in> set (first_per_unit 0 (re_split text))"
    using first_per_unit_nth [OF assms(1), of 0] by blast
  then have mem: "?u \<in> set (detect_up_sots text)" by (simp add: detect_up_sots_eq)
  have low: "lower ''Can you tell us about your background and how you got started in the tech industry''
           = ''can you tell us about your background and how you got started in the tech industry''"
    by code_simp
  have "timestamp ?u = 9 \<and> type ?u = ''question'' \<and> confidence ?u = 8 / 10
           \<and> startswith (description ?u) ''Question: can you tell us''
           \<and> description ?u = ''Question: '' @ lower (strip (re_split text ! 3))"
    by (simp add: assms(2) low)
  with mem show ?thesis by blast
qed

text \<open>
  Claim C9.  Two distinct units of the split list get distinct timestamps, so dictionaries
  appended for different units never share a timestamp; and the duplicate filter keeps,
  of the dictionaries each unit appended, exactly the first: what it drops are further
  classifications of a unit whose first classification is kept, never the classification
  of another unit.
\<close>

theorem duplicates_dropped_within_unit:
  assumes "i < length (re_split text)" and "j < length (re_split text)" and "i \<noteq> j"
  shows "(\<forall>u \<in> set (analyse i (re_split text ! i)).
            \<forall>v \<in> set (analyse j (re_split text ! j)). timestamp u \<noteq> timestamp v)
         \<and> remove_duplicates {} (scan 0 (re_split text)) =
             concat (map (\<lambda>(k, unit). take 1 (analyse k unit)) (enumerate 0 (re_split text)))"
proof -
  have "timestamp u \<noteq> timestamp v"
    if "u \<in> set (analyse i (re_split text ! i))" "v \<in> set (analyse j (re_split text ! j))" for u v
    using analyse_timestamp [OF that(1)] analyse_timestamp [OF that(2)] assms(3) by simp
  moreover have "remove_duplicates {} (scan 0 (re_split text)) = first_per_unit 0 (re_split text)"
    by (rule remove_duplicates_scan) simp
  ultimately show ?thesis by (simp add: first_per_unit_concat)
qed

theorem background_question_detected_witness:
  "3 < length (re_split ''Welcome to the show. We are here with John Smith. John, thank you for joining us today. Can you tell us about your background and how you got started in the tech industry?'')
   \<and> (\<exists>u \<in> set (detect_up_sots ''Welcome to the show. We are here with John Smith. John, thank you for joining us today. Can you tell us about your background and how you got started in the tech industry?'').
         timestamp u = 9 \<and> type u = ''question'' \<and> confidence u = 8 / 10
         \<and> startswith (description u) ''Question: can you tell us'')"
proof -
  let ?text = "''Welcome to the show. We are here with John Smith. John, thank you for joining us today. Can you tell us about your background and how you got started in the tech industry?''"
  have len: "3 < length (re_split ?text)"
    by code_simp
  have unit: "strip (re_split ?text ! 3) =
      ''Can you tell us about your background and how you got started in the tech industry''"
    by code_simp
  show ?thesis using background_question_detected [OF len unit] len by blast
qed

theorem duplicates_dropped_within_unit_witness:
  "0 < length (re_split ''Now how does this work for you? Looking ahead, what do you see in the future?'')
   \<and> 1 < length (re_split ''Now how does this work for you? Looking ahead, what do you see in the future?'')
   \<and> (0::nat) \<noteq> 1
   \<and> length (scan 0 (re_split ''Now how does this work for you? Looking ahead, what do you see in the future?'')) = 5
   \<and> map type (remove_duplicates {} (scan 0 (re_split ''Now how does this work for you? Looking ahead, what do you see in the future?'')))
       = [''question'', ''question'']"
proof -
  let ?text = "''Now how does this work for you? Looking ahead, what do you see in the future?''"
  have i: "0 < length (re_split ?text)" by code_simp
  have j: "1 < length (re_split ?text)" by code_simp
  have ne: "(0::nat) \<noteq> 1" by simp
  have n: "length (scan 0 (re_split ?text)) = 5" by code_simp
  have k: "map type (concat (map (\<lambda>(k, unit). take 1 (analyse k unit))
             (enumerate 0 (re_split ?text)))) = [''question'', ''question'']"
    by code_simp
  show ?thesis using duplicates_dropped_within_unit [OF i j ne] i j n k by simp
qed

section \<open>Properties of the export\<close>

subsection \<open>Sorting by timestamp\<close>

lemma sorted_by_timestamp_cong:
  assumes "mset ys = mset xs"
    and "\<forall>k. filter (\<lambda>u. dict_get (timestamp_key u) 0 = k) ys =
             filter (\<lambda>u. dict_get (timestamp_key u) 0 = k) xs"
  shows "sorted_by_timestamp ys = sorted_by_timestamp xs"
proof -
  let ?f = "\<lambda>x. dict_get (timestamp_key x) (0::rat)"
  have "sort_key ?f xs = sort_key ?f ys"
  proof (rule properties_for_sort_key)
    show "mset (sort_key ?f ys) = mset xs" using assms(1) by simp
  next
    show "sorted (map ?f (sort_key ?f ys))" by (rule sorted_sort_key)
  next
    fix k
    have "filter (\<lambda>x. ?f x = ?f k) (sort_key ?f ys) = filter (\<lambda>x. ?f x = ?f k) ys"
      by (rule sort_key_stable)
    also have "\<dots> = filter (\<lambda>x. ?f x = ?f k) xs" using assms(2) by blast
    finally show "filter (\<lambda>x. ?f k = ?f x) (sort_key ?f ys) = filter (\<lambda>x. ?f k = ?f x) xs"
      by (simp add: eq_commute [of "?f k"])
  qed
  then show ?thesis by (simp add: sorted_by_timestamp_def)
qed




lemma for_enumerate_nth:
  "k < length xs \<Longrightarrow> set (body (i + k) (xs ! k)) \<subseteq> set (for_enumerate body i xs)"
proof (induction xs arbitrary: i k)
  case Nil
  then show ?case by simp
next
  case (Cons x xs)
  show ?case
  proof (cases k)
    case 0
    then show ?thesis by simp
  next
    case (Suc m)
    then have "m < length xs" using Cons.prems by simp
    from Cons.IH [OF this, of "Suc i"] show ?thesis using Suc by auto
  qed
qed

text \<open>
  The renderers sort with a stable sort on the timestamp alone.  Two up-sots that share a
  timestamp therefore keep their input order, and swapping them changes the output of
  all three renderers.
\<close>

theorem renderers_order_dependent_counterexample:
  "mset [\<lparr>timestamp_key = Some 1, description_key = Some ''b'', type_key = None,
            confidence_key = None\<rparr>,
         \<lparr>timestamp_key = Some 1, description_key = Some ''a'', type_key = None,
            confidence_key = None\<rparr>]
   = mset [\<lparr>timestamp_key = Some 1, description_key = Some ''a'', type_key = None,
            confidence_key = None\<rparr>,
           \<lparr>timestamp_key = Some 1, description_key = Some ''b'', type_key = None,
            confidence_key = None\<rparr>]
   \<and> generate_edl
        [\<lparr>timestamp_key = Some 1, description_key = Some ''b'', type_key = None,
            confidence_key = None\<rparr>,
         \<lparr>timestamp_key = Some 1, description_key = Some ''a'', type_key = None,
            confidence_key = None\<rparr>] ''P''
     \<noteq> generate_edl
        [\<lparr>timestamp_key = Some 1, description_key = Some ''a'', type_key = None,
            confidence_key = None\<rparr>,
         \<lparr>timestamp_key = Some 1, description_key = Some ''b'', type_key = None,
            confidence_key = None\<rparr>] ''P''
   \<and> generate_txt ''T''
        [\<lparr>timestamp_key = Some 1, description_key = Some ''b'', type_key = None,
            confidence_key = None\<rparr>,
         \<lparr>timestamp_key = Some 1, description_key = Some ''a'', type_key = None,
            confidence_key = None\<rparr>] ''P'' ''N''
     \<noteq> generate_txt ''T''
        [\<lparr>timestamp_key = Some 1, description_key = Some ''a'', type_key = None,
            confidence_key = None\<rparr>,
         \<lparr>timestamp_key = Some 1, description_key = Some ''b'', type_key = None,
            confidence_key = None\<rparr>] ''P'' ''N''
   \<and> generate_markdown ''T''
        [\<lparr>timestamp_key = Some 1, description_key = Some ''b'', type_key = None,
            confidence_key = None\<rparr>,
         \<lparr>timestamp_key = Some 1, description_key = Some ''a'', type_key = None,
            confidence_key = None\<rparr>] ''P'' ''N'' ''N''
     \<noteq> generate_markdown ''T''
        [\<lparr>timestamp_key = Some 1, description_key = Some ''a'', type_key = None,
            confidence_key = None\<rparr>,
         \<lparr>timestamp_key = Some 1, description_key = Some ''b'', type_key = None,
            confidence_key = None\<rparr>] ''P'' ''N'' ''N''"
proof -
  let ?a = "\<lparr>timestamp_key = Some (1::rat), description_key = Some ''a'', type_key = None,
            confidence_key = (None :: rat option)\<rparr>"
  let ?b = "\<lparr>timestamp_key = Some (1::rat), description_key = Some ''b'', type_key = None,
            confidence_key = (None :: rat option)\<rparr>"
  have p: "mset [?b, ?a] = mset [?a, ?b]" by (simp add: add.commute)
  have e: "generate_edl [?b, ?a] ''P'' \<noteq> generate_edl [?a, ?b] ''P''" by code_simp
  have t: "generate_txt ''T'' [?b, ?a] ''P'' ''N'' \<noteq> generate_txt ''T'' [?a, ?b] ''P'' ''N''"
    by code_simp
  have m: "generate_markdown ''T'' [?b, ?a] ''P'' ''N'' ''N''
           \<noteq> generate_markdown ''T'' [?a, ?b] ''P'' ''N'' ''N''"
    by code_simp
  show ?thesis using p e t m by blast
qed

text \<open>
  Claim C4, as amended.  For every list of up-sots and every permutation of it that keeps,
  for each timestamp, the up-sots with that timestamp in the same relative order, each of
  the three renderers produces the same output on both, the generation times being the
  same.
\<close>

theorem renderers_order_independent:
  assumes "mset ys = mset xs"
    and "\<forall>k. filter (\<lambda>u. dict_get (timestamp_key u) 0 = k) ys =
             filter (\<lambda>u. dict_get (timestamp_key u) 0 = k) xs"
  shows "generate_edl ys project_name = generate_edl xs project_name
         \<and> generate_txt transcription ys project_name now =
             generate_txt transcription xs project_name now
         \<and> generate_markdown transcription ys project_name now_header now_footer =
             generate_markdown transcription xs project_name now_header now_footer"
proof -
  have s: "sorted_by_timestamp ys = sorted_by_timestamp xs"
    using assms by (rule sorted_by_timestamp_cong)
  have e: "(ys = []) = (xs = [])"
    using assms(1) by (metis mset_zero_iff)
  show ?thesis
    by (simp add: generate_edl_def generate_txt_def txt_lines_def generate_markdown_def
        markdown_lines_def s e)
qed

theorem renderers_order_independent_witness:
  "mset [\<lparr>timestamp_key = Some 2, description_key = Some ''b'', type_key = None,
            confidence_key = None\<rparr>,
         \<lparr>timestamp_key = Some 5, description_key = Some ''a'', type_key = None,
            confidence_key = None\<rparr>]
   = mset [\<lparr>timestamp_key = Some 5, description_key = Some ''a'', type_key = None,
            confidence_key = None\<rparr>,
           \<lparr>timestamp_key = Some 2, description_key = Some ''b'', type_key = None,
            confidence_key = None\<rparr>]
   \<and> generate_edl
        [\<lparr>timestamp_key = Some 2, description_key = Some ''b'', type_key = None,
            confidence_key = None\<rparr>,
         \<lparr>timestamp_key = Some 5, description_key = Some ''a'', type_key = None,
            confidence_key = None\<rparr>] ''P''
     = generate_edl
        [\<lparr>timestamp_key = Some 5, description_key = Some ''a'', type_key = None,
            confidence_key = None\<rparr>,
         \<lparr>timestamp_key = Some 2, description_key = Some ''b'', type_key = None,
            confidence_key = None\<rparr>] ''P''"
proof -
  let ?a = "\<lparr>timestamp_key = Some (5::rat), description_key = Some ''a'', type_key = None,
            confidence_key = (None :: rat option)\<rparr>"
  let ?b = "\<lparr>timestamp_key = Some (2::rat), description_key = Some ''b'', type_key = None,
            confidence_key = (None :: rat option)\<rparr>"
  have p: "mset [?b, ?a] = mset [?a, ?b]" by (simp add: add.commute)
  have f: "\<forall>k. filter (\<lambda>u. dict_get (timestamp_key u) 0 = k) [?b, ?a] =
               filter (\<lambda>u. dict_get (timestamp_key u) 0 = k) [?a, ?b]"
    by (simp add: dict_get_def)
  show ?thesis using renderers_order_independent [OF p f, of "''P''"] p by blast
qed

text \<open>
  Claim C5.  The EDL route answers with the validation error (status 400, "No up-sots
  provided") exactly when the request's up-sot list is empty or absent; with a non-empty
  list it never answers with that error.
\<close>

theorem export_edl_validation:
  "(export_edl now raised data = Json_error 400 ''No up-sots provided'')
     = (dict_get (up_sots_key data) [] = [])"
  by (simp add: export_edl_def Let_def split: option.splits)

theorem export_edl_validation_witness:
  "export_edl ''20260101_120000'' None \<lparr>up_sots_key = None, project_name_key = None\<rparr>
     = Json_error 400 ''No up-sots provided''
   \<and> export_edl ''20260101_120000'' None \<lparr>up_sots_key = Some [], project_name_key = Some ''P''\<rparr>
     = Json_error 400 ''No up-sots provided''
   \<and> export_edl ''20260101_120000'' None
        \<lparr>up_sots_key = Some [\<lparr>timestamp_key = Some 5, description_key = None, type_key = None,
                                 confidence_key = None\<rparr>],
         project_name_key = None\<rparr>
     \<noteq> Json_error 400 ''No up-sots provided''"
  using export_edl_validation [of "''20260101_120000''" None
          "\<lparr>up_sots_key = None, project_name_key = None\<rparr>"]
        export_edl_validation [of "''20260101_120000''" None
          "\<lparr>up_sots_key = Some [], project_name_key = Some ''P''\<rparr>"]
        export_edl_validation [of "''20260101_120000''" None
          "\<lparr>up_sots_key = Some [\<lparr>timestamp_key = Some 5, description_key = None,
                                   type_key = None, confidence_key = None\<rparr>],
            project_name_key = None\<rparr>"]
  by (simp add: dict_get_def)






lemma type_color_unknown:
  "up_sot_type \<notin> {''question'', ''key_moment'', ''topic_transition''} \<Longrightarrow>
   type_color up_sot_type = glyph_default"
  by (simp add: type_color_def dict_get_def)

text \<open>
  Claim C8.  For an up-sot whose type is none of question, key_moment and
  topic_transition, the level-3 heading the markdown renderer emits for it carries the
  default glyph, which differs from the three glyphs of the known types, and the type
  with underscores replaced by spaces and title-cased.
\<close>

theorem markdown_heading_unknown_type:
  assumes "k < length up_sots"
    and "dict_get (type_key (sorted_by_timestamp up_sots ! k)) ''key_moment''
           \<notin> {''question'', ''key_moment'', ''topic_transition''}"
  shows "''### '' @ str_int (int (k + 1)) @ ''. [''
           @ time_str (dict_get (timestamp_key (sorted_by_timestamp up_sots ! k)) 0) @ ''] ''
           @ glyph_default @ '' ''
           @ title (replace_underscores
               (dict_get (type_key (sorted_by_timestamp up_sots ! k)) ''key_moment''))
         \<in> set (markdown_lines transcription up_sots project_name now_header now_footer)
         \<and> glyph_default \<notin> {glyph_question, glyph_key_moment, glyph_topic_transition}"
proof -
  let ?sorted = "sorted_by_timestamp up_sots"
  let ?u = "?sorted ! k"
  let ?heading = "''### '' @ str_int (int (k + 1)) @ ''. [''
           @ time_str (dict_get (timestamp_key ?u) 0) @ ''] ''
           @ glyph_default @ '' ''
           @ title (replace_underscores (dict_get (type_key ?u) ''key_moment''))"
  have len: "k < length ?sorted" using assms(1) by (simp add: sorted_by_timestamp_def)
  have "?heading \<in> set (md_entry (1 + k) ?u)"
    by (simp add: md_entry_def Let_def type_color_unknown [OF assms(2)])
  then have "?heading \<in> set (for_enumerate md_entry 1 ?sorted)"
    using for_enumerate_nth [OF len, of md_entry 1] by blast
  moreover have "up_sots \<noteq> []" using assms(1) by auto
  ultimately have "?heading \<in> set (markdown_lines transcription up_sots project_name
                                     now_header now_footer)"
    by (simp add: markdown_lines_def)
  moreover have "glyph_default \<notin> {glyph_question, glyph_key_moment, glyph_topic_transition}"
    by (simp add: glyph_default_def glyph_question_def glyph_key_moment_def
        glyph_topic_transition_def)
  ultimately show ?thesis by blast
qed

theorem markdown_heading_unknown_type_witness:
  "(0::nat) < length [\<lparr>timestamp_key = Some 5, description_key = Some ''x'',
                        type_key = Some ''follow_up'', confidence_key = None\<rparr>]
   \<and> ''### 1. [00:05] '' @ glyph_default @ '' Follow Up''
       \<in> set (markdown_lines ''T''
                [\<lparr>timestamp_key = Some 5, description_key = Some ''x'',
                   type_key = Some ''follow_up'', confidence_key = None\<rparr>] ''P'' ''N'' ''M'')"
proof -
  let ?u = "\<lparr>timestamp_key = Some (5::rat), description_key = Some ''x'',
              type_key = Some ''follow_up'', confidence_key = (None :: rat option)\<rparr>"
  have k: "(0::nat) < length [?u]" by simp
  have s: "sorted_by_timestamp [?u] ! 0 = ?u" by (simp add: sorted_by_timestamp_def)
  have ty: "dict_get (type_key (sorted_by_timestamp [?u] ! 0)) ''key_moment''
           \<notin> {''question'', ''key_moment'', ''topic_transition''}"
    unfolding s by (simp add: dict_get_def)
  have n: "str_int (int (0 + 1)) = ''1''" by code_simp
  have t: "time_str (dict_get (timestamp_key ?u) 0) = ''00:05''" by code_simp
  have l: "title (replace_underscores (dict_get (type_key ?u) ''key_moment'')) = ''Follow Up''"
    by code_simp
  show ?thesis
    using markdown_heading_unknown_type [OF k ty, of "''T''" "''P''" "''N''" "''M''"] k
    unfolding s n t l by simp
qed






end
